theory Spec2Isabelle
  imports Main "HOL-Library.AList"
begin

section \<open>Python values, dictionaries and exceptions\<close>

text \<open>
  The connector works on decoded JSON documents. A value is \<open>None\<close>, a boolean, an
  integer, a string, a list or a dictionary with string keys; \<open>PDate\<close> is a
  \<open>datetime\<close> object, kept as an integer timestamp. Dictionaries are association
  lists with distinct keys, in insertion order. Floating-point numbers are outside the
  model.
\<close>

datatype pyval =
    PNone
  | PBool bool
  | PInt int
  | PStr string
  | PList "pyval list"
  | PDict "(string \<times> pyval) list"
  | PDate int

type_synonym pydict = "(string \<times> pyval) list"

datatype error =
    KeyError string
  | TypeError
  | AttributeError
  | UnboundLocalError
  | ExternalError string

definition bindE :: "error + 'a \<Rightarrow> ('a \<Rightarrow> error + 'b) \<Rightarrow> error + 'b" where
  "bindE m f = (case m of Inl e \<Rightarrow> Inl e | Inr x \<Rightarrow> f x)"

text \<open>Truth value of a Python object, as \<open>if x:\<close> and \<open>not x\<close> test it.\<close>

fun truthy :: "pyval \<Rightarrow> bool" where
  "truthy PNone = False"
| "truthy (PBool b) = b"
| "truthy (PInt n) = (n \<noteq> 0)"
| "truthy (PStr s) = (s \<noteq> [])"
| "truthy (PList xs) = (xs \<noteq> [])"
| "truthy (PDict d) = (d \<noteq> [])"
| "truthy (PDate t) = True"

text \<open>Python's \<open>==\<close>: booleans compare as the integers 0 and 1, dictionaries
  regardless of the order of their keys.\<close>

fun py_eq :: "pyval \<Rightarrow> pyval \<Rightarrow> bool" where
  "py_eq PNone PNone = True"
| "py_eq (PBool a) (PBool b) = (a = b)"
| "py_eq (PBool a) (PInt n) = ((if a then 1 else 0) = n)"
| "py_eq (PInt n) (PBool a) = (n = (if a then 1 else 0))"
| "py_eq (PInt m) (PInt n) = (m = n)"
| "py_eq (PStr s) (PStr t) = (s = t)"
| "py_eq (PList xs) (PList ys) = list_all2 py_eq xs ys"
| "py_eq (PDict d) (PDict e) =
     (length d = length e \<and>
      list_all (\<lambda>kv. list_ex (\<lambda>kv'. fst kv = fst kv' \<and> py_eq (snd kv) (snd kv')) e) d)"
| "py_eq (PDate a) (PDate b) = (a = b)"
| "py_eq _ _ = False"


subsection \<open>Dictionary operations\<close>

definition contains_key :: "pydict \<Rightarrow> string \<Rightarrow> bool" where
  "contains_key d k = (map_of d k \<noteq> None)"

text \<open>\<open>d[k]\<close> raises \<open>KeyError\<close> for a missing key.\<close>

definition getitem :: "pydict \<Rightarrow> string \<Rightarrow> error + pyval" where
  "getitem d k = (case map_of d k of None \<Rightarrow> Inl (KeyError k) | Some v \<Rightarrow> Inr v)"

text \<open>\<open>d[k] = v\<close> replaces the value of a present key in place and appends a new
  key at the end.\<close>

definition setitem :: "pydict \<Rightarrow> string \<Rightarrow> pyval \<Rightarrow> pydict" where
  "setitem d k v = AList.update k v d"

text \<open>\<open>d.get(k, default)\<close>.\<close>

definition dict_get :: "pydict \<Rightarrow> string \<Rightarrow> pyval \<Rightarrow> pyval" where
  "dict_get d k dflt = (case map_of d k of None \<Rightarrow> dflt | Some v \<Rightarrow> v)"

text \<open>\<open>d.pop(k)\<close> raises \<open>KeyError\<close> for a missing key; \<open>d.pop(k, None)\<close>
  does not. Only the dictionary that is left is of interest here.\<close>

definition dict_pop :: "pydict \<Rightarrow> string \<Rightarrow> error + pydict" where
  "dict_pop d k = (if contains_key d k then Inr (AList.delete k d) else Inl (KeyError k))"

definition dict_pop_default :: "pydict \<Rightarrow> string \<Rightarrow> pydict" where
  "dict_pop_default d k = AList.delete k d"

text \<open>\<open>d.update(other)\<close> stores the entries of \<open>other\<close> one after the other.\<close>

definition dict_update :: "pydict \<Rightarrow> pydict \<Rightarrow> pydict" where
  "dict_update d other = fold (\<lambda>kv acc. setitem acc (fst kv) (snd kv)) other d"

subsection \<open>Operations on arbitrary values\<close>

text \<open>\<open>x[k]\<close> with a string key: only a dictionary accepts it.\<close>

fun subscript :: "pyval \<Rightarrow> string \<Rightarrow> error + pyval" where
  "subscript (PDict d) k = getitem d k"
| "subscript _ k = Inl TypeError"

text \<open>\<open>x[k] = v\<close> with a string key.\<close>

fun py_setitem :: "pyval \<Rightarrow> string \<Rightarrow> pyval \<Rightarrow> error + pyval" where
  "py_setitem (PDict d) k v = Inr (PDict (setitem d k v))"
| "py_setitem _ k v = Inl TypeError"

text \<open>\<open>x.get(k, default)\<close>: only a dictionary has the method.\<close>

fun py_get :: "pyval \<Rightarrow> string \<Rightarrow> pyval \<Rightarrow> error + pyval" where
  "py_get (PDict d) k dflt = Inr (dict_get d k dflt)"
| "py_get _ k dflt = Inl AttributeError"

text \<open>\<open>x.keys()\<close>.\<close>

fun py_keys :: "pyval \<Rightarrow> error + string list" where
  "py_keys (PDict d) = Inr (map fst d)"
| "py_keys _ = Inl AttributeError"

fun is_substring :: "string \<Rightarrow> string \<Rightarrow> bool" where
  "is_substring xs [] = (xs = [])"
| "is_substring xs (y # ys) = (take (length xs) (y # ys) = xs \<or> is_substring xs ys)"

text \<open>\<open>k in x\<close> for a string \<open>k\<close>: a key of a dictionary, an element of a list, a
  substring of a string; \<open>TypeError\<close> for a value that is not a container.\<close>

fun py_contains :: "pyval \<Rightarrow> string \<Rightarrow> error + bool" where
  "py_contains (PDict d) k = Inr (contains_key d k)"
| "py_contains (PList xs) k = Inr (list_ex (\<lambda>x. py_eq x (PStr k)) xs)"
| "py_contains (PStr s) k = Inr (is_substring k s)"
| "py_contains _ k = Inl TypeError"

text \<open>The elements a \<open>for\<close> loop visits: the elements of a list, the keys of a
  dictionary, the characters of a string.\<close>

fun py_iter :: "pyval \<Rightarrow> error + pyval list" where
  "py_iter (PList xs) = Inr xs"
| "py_iter (PDict d) = Inr (map (\<lambda>kv. PStr (fst kv)) d)"
| "py_iter (PStr s) = Inr (map (\<lambda>c. PStr [c]) s)"
| "py_iter _ = Inl TypeError"

text \<open>A loop body run over a list, stopping at the first exception.\<close>

fun mapE :: "('a \<Rightarrow> error + 'b) \<Rightarrow> 'a list \<Rightarrow> error + 'b list" where
  "mapE f [] = Inr []"
| "mapE f (x # xs) = bindE (f x) (\<lambda>y. bindE (mapE f xs) (\<lambda>ys. Inr (y # ys)))"

section \<open>The raw feeder: \<open>GitlinkOcean._fix_item\<close>\<close>

text \<open>
  \<open>_fix_item\<close> changes the item in place and returns nothing. The model returns the
  item as the call leaves it, together with the exception that ended the call, if any:
  an exception in the middle of the loops leaves the earlier assignments in place.
\<close>

definition user_data_of_login :: "pyval \<Rightarrow> pyval" where
  "user_data_of_login login =
     PDict [(''name'', login), (''login'', login), (''email'', PNone),
            (''company'', PNone), (''location'', PNone)]"

text \<open>One round of the loop over \<open>identity_types\<close>, on \<open>item['data']\<close>.\<close>

definition fix_identity :: "string \<Rightarrow> pyval \<Rightarrow> error + pyval" where
  "fix_identity identity data =
     bindE (py_contains data identity) (\<lambda>present.
     if \<not> present then Inr data
     else
       bindE (subscript data identity) (\<lambda>user.
       if \<not> truthy user then Inr data
       else
         bindE (subscript user ''login'') (\<lambda>login.
         py_setitem data (identity @ ''_data'') (user_data_of_login login))))"

fun fix_identities :: "string list \<Rightarrow> pyval \<Rightarrow> pyval \<times> error option" where
  "fix_identities [] data = (data, None)"
| "fix_identities (identity # rest) data =
     (case fix_identity identity data of
        Inl e \<Rightarrow> (data, Some e)
      | Inr data' \<Rightarrow> fix_identities rest data')"

text \<open>One round of the loop over the comments.\<close>

definition fix_comment :: "pyval \<Rightarrow> error + pyval" where
  "fix_comment comment =
     bindE (subscript comment ''user'') (\<lambda>user.
     bindE (subscript user ''login'') (\<lambda>login.
     py_setitem comment ''user_data'' (user_data_of_login login)))"

fun fix_comments :: "pyval list \<Rightarrow> pyval list \<times> error option" where
  "fix_comments [] = ([], None)"
| "fix_comments (comment # rest) =
     (case fix_comment comment of
        Inl e \<Rightarrow> (comment # rest, Some e)
      | Inr comment' \<Rightarrow>
          (case fix_comments rest of (rest', r) \<Rightarrow> (comment' # rest', r)))"

text \<open>
  \<open>comments = item.get(comments_attr, [])\<close> and the loop over it. With
  \<open>comments_attr = None\<close> the lookup finds nothing, the keys being strings. The
  comments of a list are changed in place; the elements of a dictionary or a string are
  strings, on which the loop body raises.
\<close>

definition fix_comments_attr :: "string option \<Rightarrow> pyval \<Rightarrow> pyval \<times> error option" where
  "fix_comments_attr comments_attr data =
     (case data of
        PDict d \<Rightarrow>
          (case comments_attr of
             None \<Rightarrow> (data, None)
           | Some attr \<Rightarrow>
               (case map_of d attr of
                  None \<Rightarrow> (data, None)
                | Some (PList comments) \<Rightarrow>
                    (case fix_comments comments of
                       (comments', r) \<Rightarrow> (PDict (setitem d attr (PList comments')), r))
                | Some comments \<Rightarrow>
                    (case bindE (py_iter comments) (mapE fix_comment) of
                       Inl e \<Rightarrow> (data, Some e)
                     | Inr _ \<Rightarrow> (data, None))))
      | _ \<Rightarrow> (data, Some AttributeError))"

definition fix_item :: "pydict \<Rightarrow> pydict \<times> error option" where
  "fix_item item =
     (case getitem item ''category'' of
        Inl e \<Rightarrow> (item, Some e)
      | Inr category \<Rightarrow>
          (case map_of item ''classified_fields_filtered'' of
             None \<Rightarrow> (item, None)
           | Some filtered \<Rightarrow>
               if \<not> truthy filtered then (item, None)
               else
                 (case getitem item ''data'' of
                    Inl e \<Rightarrow> (item, Some e)
                  | Inr data \<Rightarrow>
                      (case (if py_eq category (PStr ''issue'')
                               then ([''author'', ''assignee''], Some ''comments_data'')
                             else if py_eq category (PStr ''pull_request'')
                               then ([''merge_by''], None)
                             else ([], None)) of
                         (identity_types, comments_attr) \<Rightarrow>
                           (case fix_identities identity_types data of
                              (data1, Some e) \<Rightarrow> (setitem item ''data'' data1, Some e)
                            | (data1, None) \<Rightarrow>
                                (case fix_comments_attr comments_attr data1 of
                                   (data2, r) \<Rightarrow> (setitem item ''data'' data2, r)))))))"


section \<open>Strings\<close>

text \<open>Decimal rendering of an integer, as \<open>str\<close> and \<open>format\<close> give it.\<close>

definition digit :: "nat \<Rightarrow> char" where
  "digit n = ''0123456789'' ! n"

fun str_nat :: "nat \<Rightarrow> string" where
  "str_nat n = (if n < 10 then [digit n] else str_nat (n div 10) @ [digit (n mod 10)])"

definition str_int :: "int \<Rightarrow> string" where
  "str_int i = (if i < 0 then CHR ''-'' # str_nat (nat (- i)) else str_nat (nat i))"

text \<open>\<open>s.endswith(suffix)\<close>.\<close>

definition endswith :: "string \<Rightarrow> string \<Rightarrow> bool" where
  "endswith s suffix =
     (length suffix \<le> length s \<and> drop (length s - length suffix) s = suffix)"

fun py_endswith :: "pyval \<Rightarrow> string \<Rightarrow> error + bool" where
  "py_endswith (PStr s) suffix = Inr (endswith s suffix)"
| "py_endswith _ suffix = Inl AttributeError"

text \<open>\<open>s.split("/")[-1]\<close>: what follows the last slash.\<close>

definition last_segment :: "string \<Rightarrow> string" where
  "last_segment s = rev (takeWhile (\<lambda>c. c \<noteq> CHR ''/'') (rev s))"

fun py_split_last :: "pyval \<Rightarrow> error + pyval" where
  "py_split_last (PStr s) = Inr (PStr (last_segment s))"
| "py_split_last _ = Inl AttributeError"

text \<open>\<open>s.replace(old, new)\<close> for a non-empty \<open>old\<close>: the occurrences are replaced
  from left to right, without overlap.\<close>

function str_replace :: "string \<Rightarrow> string \<Rightarrow> string \<Rightarrow> string" where
  "str_replace old new [] = []"
| "str_replace old new (c # cs) =
     (if old \<noteq> [] \<and> take (length old) (c # cs) = old
      then new @ str_replace old new (drop (length old) (c # cs))
      else c # str_replace old new cs)"
  by pat_completeness auto
termination
  by (relation "measure (\<lambda>(old, new, s). length s)") auto

fun py_replace :: "pyval \<Rightarrow> string \<Rightarrow> string \<Rightarrow> error + pyval" where
  "py_replace (PStr s) old new = Inr (PStr (str_replace old new s))"
| "py_replace _ old new = Inl AttributeError"

text \<open>\<open>x[:n]\<close>.\<close>

fun py_slice_to :: "pyval \<Rightarrow> nat \<Rightarrow> error + pyval" where
  "py_slice_to (PStr s) n = Inr (PStr (take n s))"
| "py_slice_to (PList xs) n = Inr (PList (take n xs))"
| "py_slice_to _ n = Inl TypeError"

text \<open>\<open>len(x)\<close>.\<close>

fun py_len :: "pyval \<Rightarrow> error + nat" where
  "py_len (PStr s) = Inr (length s)"
| "py_len (PList xs) = Inr (length xs)"
| "py_len (PDict d) = Inr (length d)"
| "py_len _ = Inl TypeError"

text \<open>\<open>a + b\<close> on strings.\<close>

fun py_concat :: "pyval \<Rightarrow> pyval \<Rightarrow> error + pyval" where
  "py_concat (PStr a) (PStr b) = Inr (PStr (a @ b))"
| "py_concat _ _ = Inl TypeError"

section \<open>The host framework\<close>

text \<open>
  The enrichers extend the class \<open>Enrich\<close> of the host framework and call its methods,
  its date helpers and the bulk-indexing client. None of that code belongs to the
  connector, so the model takes it as an environment:
  \<^item> \<open>RAW_FIELDS_COPY\<close> and \<open>KEYWORD_MAX_LENGTH\<close>, the class constants;
  \<open>sortinghat\<close> and \<open>prjs_map\<close>, the truth values of the two attributes the
  connector tests; \<open>gelk_version\<close>;
  \<^item> the wall clock \<open>datetime_utcnow\<close> (a timestamp) and its \<open>isoformat\<close>;
  \<^item> \<open>py_repr\<close>, the text \<open>str\<close> gives for a list, a dictionary or a date;
  \<^item> the helpers \<open>get_time_diff_days\<close>, \<open>str_to_datetime\<close>, \<open>get_email_domain\<close>,
  \<open>get_item_project\<close>, \<open>get_grimoire_fields\<close> and \<open>get_item_sh\<close>, which may raise;
  \<^item> \<open>add_repository_labels\<close>, \<open>add_metadata_filter_raw\<close> and the decorator
  \<open>metadata\<close>, which change an enriched item in place;
  \<^item> \<open>bulk_upload\<close>, the sink: given the batches it received before, the batch
  and the name of the identifier field, it reports how many records it wrote.
\<close>

record env =
  RAW_FIELDS_COPY :: "string list"
  KEYWORD_MAX_LENGTH :: nat
  sortinghat :: bool
  prjs_map :: bool
  gelk_version :: pyval
  datetime_utcnow :: int
  isoformat :: "int \<Rightarrow> string"
  py_repr :: "pyval \<Rightarrow> string"
  get_time_diff_days :: "pyval \<Rightarrow> pyval \<Rightarrow> error + pyval"
  str_to_datetime :: "pyval \<Rightarrow> error + int"
  get_email_domain :: "pyval \<Rightarrow> error + pyval"
  get_item_project :: "pydict \<Rightarrow> error + pydict"
  get_grimoire_fields :: "pyval \<Rightarrow> string \<Rightarrow> error + pydict"
  get_item_sh :: "pyval \<Rightarrow> string list \<Rightarrow> string option \<Rightarrow> error + pydict"
  add_repository_labels :: "pydict \<Rightarrow> pydict"
  add_metadata_filter_raw :: "pydict \<Rightarrow> pydict"
  metadata :: "pydict \<Rightarrow> pydict"
  bulk_upload :: "pydict list list \<Rightarrow> pydict list \<Rightarrow> string \<Rightarrow> int"

text \<open>\<open>str(x)\<close>, also what \<open>"{}".format(x)\<close> inserts.\<close>

definition py_str :: "env \<Rightarrow> pyval \<Rightarrow> string" where
  "py_str env v =
     (case v of
        PNone \<Rightarrow> ''None''
      | PBool b \<Rightarrow> (if b then ''True'' else ''False'')
      | PInt n \<Rightarrow> str_int n
      | PStr s \<Rightarrow> s
      | _ \<Rightarrow> py_repr env v)"

text \<open>\<open>Enrich.copy_raw_fields\<close>, as \<open>GitlinkEnrich\<close> writes it out in its own
  methods: a field the source lacks is copied as \<open>None\<close>.\<close>

fun copy_raw_fields :: "string list \<Rightarrow> pydict \<Rightarrow> pydict \<Rightarrow> pydict" where
  "copy_raw_fields [] source target = target"
| "copy_raw_fields (f # fs) source target =
     copy_raw_fields fs source (setitem target f (dict_get source f PNone))"

text \<open>A run of assignments \<open>target[k] = source[k']\<close>, in order; the first missing
  key raises.\<close>

fun copy_fields :: "(string \<times> string) list \<Rightarrow> pyval \<Rightarrow> pydict \<Rightarrow> error + pydict" where
  "copy_fields [] source target = Inr target"
| "copy_fields (kk # rest) source target =
     bindE (subscript source (snd kk)) (\<lambda>v. copy_fields rest source (setitem target (fst kk) v))"

section \<open>\<open>GitlinkEnrich2\<close>: identities\<close>

definition USER_NOT_AVAILABLE :: pyval where
  "USER_NOT_AVAILABLE = PDict [(''organizations'', PList [])]"

definition DELETED_USER_LOGIN :: string where
  "DELETED_USER_LOGIN = ''Deleted user login''"

definition DELETED_USER_NAME :: string where
  "DELETED_USER_NAME = ''Deleted user''"

text \<open>
  \<open>get_sh_identity(item)\<close>; every call of the connector leaves \<open>identity_field\<close> at
  \<open>None\<close>, so a dictionary with a key \<open>data\<close> is subscripted with \<open>None\<close>, which
  raises.
\<close>

definition get_sh_identity :: "pyval \<Rightarrow> error + pydict" where
  "get_sh_identity item =
     bindE (case item of
              PDict d \<Rightarrow>
                (case map_of d ''data'' of
                   None \<Rightarrow> Inr item
                 | Some (PDict _) \<Rightarrow> Inl (KeyError ''None'')
                 | Some _ \<Rightarrow> Inl TypeError)
            | _ \<Rightarrow> Inr item) (\<lambda>user.
     if \<not> truthy user then Inr []
     else
       bindE (py_get user ''login'' PNone) (\<lambda>login.
       bindE (py_get user ''name'' login) (\<lambda>name.
       bindE (py_get user ''email'' PNone) (\<lambda>email.
       bindE (py_get user ''username'' login) (\<lambda>username.
       Inr [(''name'', name), (''email'', email), (''username'', username)])))))"

text \<open>\<open>x.get(k, default)\<close> where \<open>k\<close> may be \<open>None\<close>, which is no key of a
  decoded JSON object.\<close>

fun py_get_opt :: "pyval \<Rightarrow> string option \<Rightarrow> pyval \<Rightarrow> error + pyval" where
  "py_get_opt (PDict d) None dflt = Inr dflt"
| "py_get_opt (PDict d) (Some k) dflt = Inr (dict_get d k dflt)"
| "py_get_opt _ k dflt = Inl AttributeError"

text \<open>
  \<open>get_identities\<close> is a generator: the model returns what it yields, in order, and
  the exception that ended it, if any. Each round of its two loops yields one identity
  or none.
\<close>

fun run_generator :: "(error + 'a list) list \<Rightarrow> 'a list \<times> error option" where
  "run_generator [] = ([], None)"
| "run_generator (Inl e # rest) = ([], Some e)"
| "run_generator (Inr ys # rest) =
     (case run_generator rest of (zs, r) \<Rightarrow> (ys @ zs, r))"

definition yield_identity :: "pyval \<Rightarrow> error + pydict list" where
  "yield_identity user_data =
     bindE (get_sh_identity user_data) (\<lambda>user.
     Inr (if truthy (PDict user) then [user] else []))"

definition identity_round :: "pyval \<Rightarrow> string \<Rightarrow> error + pydict list" where
  "identity_round data identity =
     bindE (subscript data identity) (\<lambda>who.
     if \<not> truthy who then Inr []
     else
       bindE (py_contains data (identity @ ''_data'')) (\<lambda>present.
       if \<not> present then Inr []
       else bindE (subscript data (identity @ ''_data'')) yield_identity))"

definition comment_round :: "pyval \<Rightarrow> error + pydict list" where
  "comment_round comment = bindE (subscript comment ''user_data'') yield_identity"

definition get_identities :: "pydict \<Rightarrow> pydict list \<times> error option" where
  "get_identities item =
     (case getitem item ''category'' of
        Inl e \<Rightarrow> ([], Some e)
      | Inr category \<Rightarrow>
     (case getitem item ''data'' of
        Inl e \<Rightarrow> ([], Some e)
      | Inr data \<Rightarrow>
     (case (if py_eq category (PStr ''issue'')
              then ([''author'', ''assignee''], Some ''comments_data'')
            else if py_eq category (PStr ''pull_request'')
              then ([''merged_by''], None)
            else ([], None)) of
        (identity_types, comments_attr) \<Rightarrow>
          run_generator
            (map (identity_round data) identity_types @
             (case bindE (py_get_opt data comments_attr (PList [])) py_iter of
                Inl e \<Rightarrow> [Inl e]
              | Inr comments \<Rightarrow> map comment_round comments)))))"


section \<open>\<open>GitlinkEnrich2\<close>: the transform stage\<close>

definition MAX_SIZE_BULK_ENRICHED_ITEMS :: nat where
  "MAX_SIZE_BULK_ENRICHED_ITEMS = 200"

definition GITLINK :: string where
  "GITLINK = ''www.//gitlink.org.cn/''"

definition ISSUE_TYPE :: string where
  "ISSUE_TYPE = ''issue''"

definition PULL_TYPE :: string where
  "PULL_TYPE = ''pull_request''"

definition COMMENT_TYPE :: string where
  "COMMENT_TYPE = ''comment''"

definition ISSUE_COMMENT_TYPE :: string where
  "ISSUE_COMMENT_TYPE = ''issue_comment''"

definition REVIEW_COMMENT_TYPE :: string where
  "REVIEW_COMMENT_TYPE = ''review_comment''"

definition REPOSITORY_TYPE :: string where
  "REPOSITORY_TYPE = ''repository''"

definition comment_roles :: "string list" where
  "comment_roles = [''author_data'']"

definition issue_roles :: "string list" where
  "issue_roles = [''assignee_data'', ''author_data'']"

definition pr_roles :: "string list" where
  "pr_roles = [''merged_by_data'']"

definition get_field_date :: string where
  "get_field_date = ''grimoire_creation_date''"

definition get_field_unique_id :: string where
  "get_field_unique_id = ''id''"

definition add_gelk_metadata :: "env \<Rightarrow> pydict \<Rightarrow> pydict" where
  "add_gelk_metadata env eitem =
     dict_update eitem
       [(''metadata__gelk_version'', gelk_version env),
        (''metadata__gelk_backend_name'', PStr ''GitlinkEnrich2''),
        (''metadata__enriched_on'', PStr (isoformat env (datetime_utcnow env)))]"

subsection \<open>Reactions\<close>

definition reaction_name :: "string \<Rightarrow> string" where
  "reaction_name reaction =
     (if reaction = ''-1'' then ''thumb_down''
      else if reaction = ''+1'' then ''thumb_up''
      else reaction)"

text \<open>
  \<open>__get_reactions(item)\<close> removes the key \<open>url\<close> from \<open>item['reactions']\<close> in
  place: the model returns the reactions and the item as it is left.
\<close>

definition get_reactions :: "pyval \<Rightarrow> error + (pydict \<times> pyval)" where
  "get_reactions item =
     (case item of
        PDict d \<Rightarrow>
          (case map_of d ''reactions'' of
             None \<Rightarrow> Inr ([], item)
           | Some (PDict item_reactions) \<Rightarrow>
               (let popped = dict_pop_default item_reactions ''url'' in
                Inr (fold (\<lambda>kv reactions.
                             setitem reactions (''reaction_'' @ reaction_name (fst kv)) (snd kv))
                          popped [],
                     PDict (setitem d ''reactions'' (PDict popped))))
           | Some (PList _) \<Rightarrow> Inl TypeError
           | Some _ \<Rightarrow> Inl AttributeError)
      | _ \<Rightarrow> Inl AttributeError)"

subsection \<open>First attention\<close>

fun min_dates :: "int list \<Rightarrow> pyval" where
  "min_dates [] = PNone"
| "min_dates (d # ds) = PDate (fold min ds d)"

text \<open>One round of the loop of \<open>get_time_to_first_attention\<close>: the comment as it is
  left (a deleted user is filled in) and the date it adds, if any.\<close>

definition attention_round :: "env \<Rightarrow> pyval \<Rightarrow> pyval \<Rightarrow> error + (pyval \<times> int list)" where
  "attention_round env item comment =
     bindE (subscript comment ''user'') (\<lambda>user.
     bindE (if \<not> truthy user
            then py_setitem comment ''user'' (PDict [(''login'', PStr DELETED_USER_LOGIN)])
            else Inr comment) (\<lambda>comment'.
     bindE (subscript item ''author'') (\<lambda>author.
     bindE (subscript author ''login'') (\<lambda>author_login.
     bindE (subscript comment' ''user'') (\<lambda>user'.
     bindE (subscript user' ''login'') (\<lambda>comment_login.
     if py_eq author_login comment_login then Inr (comment', [])
     else
       bindE (subscript comment' ''created_at'') (\<lambda>created.
       bindE (str_to_datetime env created) (\<lambda>date.
       Inr (comment', [date])))))))))"

definition get_time_to_first_attention :: "env \<Rightarrow> pyval \<Rightarrow> error + (pyval \<times> pyval)" where
  "get_time_to_first_attention env item =
     bindE (subscript item ''comments_data'') (\<lambda>comments.
     bindE (py_iter comments) (\<lambda>elements.
     bindE (mapE (attention_round env item) elements) (\<lambda>rounds.
     bindE (case comments of
              PList _ \<Rightarrow> py_setitem item ''comments_data'' (PList (map fst rounds))
            | _ \<Rightarrow> Inr item) (\<lambda>item'.
     Inr (min_dates (concat (map snd rounds)), item')))))"

text \<open>The filter of the two comprehensions that leave out the creator and the bots.\<close>

definition not_creator_nor_bot :: "pyval \<Rightarrow> pyval \<Rightarrow> error + bool" where
  "not_creator_nor_bot item comment =
     bindE (subscript item ''user'') (\<lambda>creator.
     bindE (subscript creator ''login'') (\<lambda>creator_login.
     bindE (subscript comment ''user'') (\<lambda>user.
     bindE (subscript user ''login'') (\<lambda>comment_login.
     if py_eq creator_login comment_login then Inr False
     else
       bindE (subscript user ''name'') (\<lambda>name.
       bindE (py_endswith name ''bot'') (\<lambda>bot.
       Inr (\<not> bot)))))))"

definition get_num_of_comments_without_bot :: "pyval \<Rightarrow> error + pyval" where
  "get_num_of_comments_without_bot item =
     bindE (subscript item ''comments_data'') (\<lambda>comments.
     bindE (py_iter comments) (\<lambda>elements.
     bindE (mapE (not_creator_nor_bot item) elements) (\<lambda>keep.
     Inr (PInt (int (length (filter id keep)))))))"

definition date_unless_creator_or_bot :: "env \<Rightarrow> pyval \<Rightarrow> pyval \<Rightarrow> error + int list" where
  "date_unless_creator_or_bot env item comment =
     bindE (not_creator_nor_bot item comment) (\<lambda>keep.
     if \<not> keep then Inr []
     else
       bindE (subscript comment ''created_at'') (\<lambda>created.
       bindE (str_to_datetime env created) (\<lambda>date. Inr [date])))"

definition get_time_to_first_attention_without_bot :: "env \<Rightarrow> pyval \<Rightarrow> error + pyval" where
  "get_time_to_first_attention_without_bot env item =
     bindE (subscript item ''comments_data'') (\<lambda>comments.
     bindE (py_iter comments) (\<lambda>elements.
     bindE (mapE (date_unless_creator_or_bot env item) elements) (\<lambda>dates.
     Inr (min_dates (concat dates)))))"

subsection \<open>\<open>__get_rich_issue\<close>\<close>

text \<open>
  The method is modelled block by block, each block taking the enriched item built so
  far. The blocks that change the raw issue in place also return the issue.
\<close>

definition rich_issue_times :: "env \<Rightarrow> pyval \<Rightarrow> pydict \<Rightarrow> error + pydict" where
  "rich_issue_times env issue rich_issue =
     bindE (subscript issue ''created_at'') (\<lambda>created_at.
     bindE (subscript issue ''finished_at'') (\<lambda>finished_at.
     bindE (get_time_diff_days env created_at finished_at) (\<lambda>time_to_close.
     bindE (subscript issue ''status'') (\<lambda>status.
     bindE (subscript status ''id'') (\<lambda>status_id.
     bindE (if py_eq status_id (PInt 1) \<or> py_eq status_id (PInt 2)
            then get_time_diff_days env created_at (PDate (datetime_utcnow env))
            else Inr time_to_close) (\<lambda>time_open.
     Inr (dict_update rich_issue
            [(''time_to_close_days'', time_to_close), (''time_open_days'', time_open)])))))))"

definition rich_issue_user :: "env \<Rightarrow> pyval \<Rightarrow> pydict \<Rightarrow> error + pydict" where
  "rich_issue_user env issue rich_issue =
     bindE (subscript issue ''author'') (\<lambda>author.
     bindE (subscript author ''login'') (\<lambda>login.
     bindE (py_get issue ''author_data'' PNone) (\<lambda>user.
     if user \<noteq> PNone \<and> truthy user then
       bindE (subscript user ''name'') (\<lambda>name.
       bindE (subscript user ''email'') (\<lambda>email.
       bindE (if truthy email then get_email_domain env email else Inr PNone) (\<lambda>domain.
       bindE (subscript user ''company'') (\<lambda>company.
       bindE (py_get user ''location'' PNone) (\<lambda>location.
       Inr (dict_update rich_issue
              [(''user_login'', login), (''user_name'', name), (''author_name'', name),
               (''user_domain'', domain), (''user_org'', company),
               (''user_location'', location), (''user_geolocation'', PNone)]))))))
     else
       Inr (dict_update rich_issue
              [(''user_login'', login), (''user_name'', PNone), (''user_domain'', PNone),
               (''user_org'', PNone), (''user_location'', PNone),
               (''user_geolocation'', PNone), (''author_name'', PNone)]))))"

definition rich_issue_assignee :: "env \<Rightarrow> pyval \<Rightarrow> pydict \<Rightarrow> error + pydict" where
  "rich_issue_assignee env issue rich_issue =
     bindE (py_get issue ''assignee_data'' PNone) (\<lambda>assignee.
     if truthy assignee \<and> \<not> py_eq assignee USER_NOT_AVAILABLE then
       bindE (subscript assignee ''login'') (\<lambda>login.
       bindE (subscript assignee ''name'') (\<lambda>name.
       bindE (subscript assignee ''email'') (\<lambda>email.
       bindE (if truthy email then get_email_domain env email else Inr PNone) (\<lambda>domain.
       bindE (subscript assignee ''company'') (\<lambda>company.
       bindE (py_get assignee ''location'' PNone) (\<lambda>location.
       Inr (dict_update rich_issue
              [(''assignee_login'', login), (''assignee_name'', name),
               (''assignee_domain'', domain), (''assignee_org'', company),
               (''assignee_location'', location), (''assignee_geolocation'', PNone)])))))))
     else
       Inr (dict_update rich_issue
              [(''assignee_name'', PNone), (''assignee_login'', PNone),
               (''assignee_domain'', PNone), (''assignee_org'', PNone),
               (''assignee_location'', PNone), (''assignee_geolocation'', PNone)]))"

text \<open>From \<open>rich_issue["id"]\<close> to \<open>rich_issue["issue_updated_at"]\<close>;
  \<open>get_project_repository\<close> reads \<open>origin\<close> from the enriched item.\<close>

definition rich_issue_ids :: "pyval \<Rightarrow> pydict \<Rightarrow> error + pydict" where
  "rich_issue_ids issue rich_issue =
     bindE (copy_fields [(''id'', ''id''), (''issue_id'', ''id'')] issue rich_issue) (\<lambda>rich1.
     bindE (subscript issue ''html_url'') (\<lambda>html_url.
     bindE (py_split_last html_url) (\<lambda>id_in_repo.
     bindE (getitem rich1 ''origin'') (\<lambda>repo.
     bindE (copy_fields [(''issue_title'', ''title''), (''issue_title_analyzed'', ''title'')]
              issue
              (dict_update rich1 [(''issue_id_in_repo'', id_in_repo), (''repository'', repo)]))
       (\<lambda>rich2.
     bindE (subscript issue ''status'') (\<lambda>status.
     bindE (subscript status ''name'') (\<lambda>state.
     copy_fields [(''issue_created_at'', ''created_at''), (''issue_updated_at'', ''updated_at'')]
       issue (setitem rich2 ''issue_state'' state))))))))"

definition rich_issue_labels :: "pyval \<Rightarrow> pydict \<Rightarrow> error + pydict" where
  "rich_issue_labels issue rich_issue =
     bindE (py_contains issue ''labels'') (\<lambda>present.
     if present then
       bindE (subscript issue ''labels'') (\<lambda>labels.
       bindE (py_iter labels) (\<lambda>elements.
       bindE (mapE (\<lambda>label. subscript label ''name'') elements) (\<lambda>names.
       Inr (setitem rich_issue ''issue_labels'' (PList names)))))
     else Inr rich_issue)"

text \<open>\<open>item_type\<close>, \<open>issue_pull_request\<close>, and \<open>gitlink_repo\<close> with \<open>url_id\<close>
  when the enriched item has a key \<open>issue\<close>.\<close>

definition rich_issue_kind :: "pyval \<Rightarrow> pydict \<Rightarrow> error + pydict" where
  "rich_issue_kind issue rich_issue =
     bindE (py_keys issue) (\<lambda>keys.
     (let rich1 = dict_update rich_issue
                    [(''item_type'', PStr ISSUE_TYPE),
                     (''issue_pull_request'',
                      PBool (\<not> (''head'' \<notin> set keys \<and> ''pull_request'' \<notin> set keys)))]
      in if contains_key rich1 ''issue'' then
           bindE (getitem rich1 ''issue'') (\<lambda>issue_field.
           bindE (py_replace issue_field GITLINK []) (\<lambda>gitlink_repo.
           bindE (py_concat gitlink_repo (PStr ''/issues/'')) (\<lambda>prefix.
           bindE (getitem rich1 ''id_in_repo'') (\<lambda>id_in_repo.
           bindE (py_concat prefix id_in_repo) (\<lambda>url_id.
           Inr (dict_update rich1
                  [(''gitlink_repo'', gitlink_repo), (''url_id'', url_id)]))))))
         else Inr rich1))"

text \<open>The project of the item: \<open>get_item_project\<close> when a projects map is set, then
  the \<open>project\<close> of the raw item.\<close>

definition rich_project :: "env \<Rightarrow> pydict \<Rightarrow> pydict \<Rightarrow> error + pydict" where
  "rich_project env item rich =
     bindE (if prjs_map env
            then bindE (get_item_project env rich) (\<lambda>project. Inr (dict_update rich project))
            else Inr rich) (\<lambda>rich1.
     Inr (case map_of item ''project'' of
            None \<Rightarrow> rich1
          | Some project \<Rightarrow> setitem rich1 ''project'' project))"

definition rich_issue_attention :: "env \<Rightarrow> pyval \<Rightarrow> pydict \<Rightarrow> error + (pydict \<times> pyval)" where
  "rich_issue_attention env issue rich_issue =
     (let rich1 = setitem rich_issue ''time_to_first_attention'' PNone in
      bindE (subscript issue ''comments_data'') (\<lambda>comments.
      bindE (py_len comments) (\<lambda>n.
      if n \<noteq> 0 then
        bindE (subscript issue ''created_at'') (\<lambda>created_at.
        bindE (str_to_datetime env created_at) (\<lambda>created.
        bindE (get_time_to_first_attention env issue) (\<lambda>(first, issue').
        bindE (get_time_diff_days env (PDate created) first) (\<lambda>attention.
        bindE (get_num_of_comments_without_bot issue') (\<lambda>num.
        bindE (subscript issue' ''created_at'') (\<lambda>created_at'.
        bindE (str_to_datetime env created_at') (\<lambda>created'.
        bindE (get_time_to_first_attention_without_bot env issue') (\<lambda>first'.
        bindE (get_time_diff_days env (PDate created') first') (\<lambda>attention'.
        Inr (dict_update rich1
               [(''time_to_first_attention'', attention),
                (''num_of_comments_without_bot'', num),
                (''time_to_first_attention_without_bot'', attention')],
             issue'))))))))))
      else Inr (rich1, issue))))"

text \<open>The grimoire fields of the item, and the flag \<open>is_gitlink2_\<close>\<open>type\<close> they bring
  replaced by \<open>is_gitlink_\<close>\<open>type\<close>.\<close>

definition rich_grimoire :: "env \<Rightarrow> pyval \<Rightarrow> string \<Rightarrow> pydict \<Rightarrow> error + pydict" where
  "rich_grimoire env date item_type rich =
     bindE (get_grimoire_fields env date item_type) (\<lambda>fields.
     bindE (dict_pop (dict_update rich fields) (''is_gitlink2_'' @ item_type)) (\<lambda>rich1.
     Inr (setitem rich1 (''is_gitlink_'' @ item_type) (PInt 1))))"

text \<open>With SortingHat the creation date is stored in the raw item, which goes to
  \<open>get_item_sh\<close>.\<close>

definition rich_sortinghat ::
  "env \<Rightarrow> string list \<Rightarrow> pydict \<Rightarrow> pydict \<Rightarrow> error + (pydict \<times> pydict)" where
  "rich_sortinghat env roles item rich =
     (if sortinghat env then
        bindE (getitem rich get_field_date) (\<lambda>date.
        (let item' = setitem item get_field_date date in
         bindE (get_item_sh env (PDict item') roles None) (\<lambda>sh.
         Inr (dict_update rich sh, item'))))
      else Inr (rich, item))"

definition GitlinkEnrich2_get_rich_issue :: "env \<Rightarrow> pydict \<Rightarrow> error + (pydict \<times> pydict)" where
  "GitlinkEnrich2_get_rich_issue env item =
     (let rich0 = copy_raw_fields (RAW_FIELDS_COPY env) item [] in
      bindE (getitem item ''data'') (\<lambda>issue.
      bindE (rich_issue_times env issue rich0) (\<lambda>rich1.
      bindE (rich_issue_user env issue rich1) (\<lambda>rich2.
      bindE (rich_issue_assignee env issue rich2) (\<lambda>rich3.
      bindE (rich_issue_ids issue rich3) (\<lambda>rich4.
      bindE (get_reactions issue) (\<lambda>(reactions, issue1).
      bindE (rich_issue_labels issue1 (dict_update rich4 reactions)) (\<lambda>rich5.
      bindE (rich_issue_kind issue1 rich5) (\<lambda>rich6.
      bindE (rich_project env item rich6) (\<lambda>rich7.
      bindE (rich_issue_attention env issue1 rich7) (\<lambda>(rich8, issue2).
      bindE (subscript issue2 ''created_at'') (\<lambda>created_at.
      bindE (rich_grimoire env created_at ISSUE_TYPE rich8) (\<lambda>rich9.
      rich_sortinghat env issue_roles (setitem item ''data'' issue2) rich9)))))))))))))"


subsection \<open>\<open>__get_rich_pull\<close> and \<open>__get_rich_repo\<close>\<close>

definition rich_pull_user :: "env \<Rightarrow> pyval \<Rightarrow> pydict \<Rightarrow> error + pydict" where
  "rich_pull_user env pull_request rich_pr =
     bindE (py_get pull_request ''user_data'' PNone) (\<lambda>user.
     if user \<noteq> PNone \<and> truthy user then
       bindE (subscript user ''name'') (\<lambda>name.
       bindE (subscript user ''email'') (\<lambda>email.
       bindE (if truthy email then get_email_domain env email else Inr PNone) (\<lambda>domain.
       bindE (subscript user ''company'') (\<lambda>company.
       Inr (dict_update rich_pr
              [(''user_name'', name), (''author_name'', name), (''user_domain'', domain),
               (''user_org'', company), (''user_geolocation'', PNone)])))))
     else
       Inr (dict_update rich_pr
              [(''user_name'', PNone), (''user_domain'', PNone), (''user_org'', PNone),
               (''user_location'', PNone), (''user_geolocation'', PNone),
               (''author_name'', PNone)]))"

definition rich_pull_merger :: "env \<Rightarrow> pyval \<Rightarrow> pydict \<Rightarrow> error + pydict" where
  "rich_pull_merger env pull_request rich_pr =
     bindE (py_get pull_request ''merge_by'' PNone) (\<lambda>merged_by.
     if truthy merged_by \<and> \<not> py_eq merged_by USER_NOT_AVAILABLE then
       bindE (subscript merged_by ''login'') (\<lambda>login.
       bindE (subscript merged_by ''name'') (\<lambda>name.
       bindE (subscript merged_by ''email'') (\<lambda>email.
       bindE (if truthy email then get_email_domain env email else Inr PNone) (\<lambda>domain.
       bindE (py_get merged_by ''company'' PNone) (\<lambda>company.
       Inr (dict_update rich_pr
              [(''merge_author_login'', login), (''merge_author_name'', name),
               (''merge_author_domain'', domain), (''merge_author_org'', company),
               (''merge_author_geolocation'', PNone)]))))))
     else
       Inr (dict_update rich_pr
              [(''merge_author_name'', PNone), (''merge_author_login'', PNone),
               (''merge_author_domain'', PNone), (''merge_author_org'', PNone),
               (''merge_author_location'', PNone), (''merge_author_geolocation'', PNone)]))"

text \<open>From \<open>rich_pr["id"]\<close> to \<open>rich_pr["issue_url"]\<close>.\<close>

definition rich_pull_ids :: "pydict \<Rightarrow> pyval \<Rightarrow> pydict \<Rightarrow> error + pydict" where
  "rich_pull_ids item pull_request rich_pr =
     bindE (copy_fields [(''id'', ''id''), (''pull_id'', ''id''), (''pull_id_in_repo'', ''index'')]
              pull_request rich_pr) (\<lambda>rich1.
     bindE (subscript pull_request ''issue'') (\<lambda>issue.
     bindE (subscript issue ''id'') (\<lambda>issue_id.
     bindE (getitem rich1 ''origin'') (\<lambda>repo.
     bindE (subscript pull_request ''status'') (\<lambda>status.
     bindE (getitem item ''updated_on'') (\<lambda>updated_on.
     bindE (copy_fields [(''pull_merged'', ''merged''), (''pull_merged_at'', ''merged_at'')]
              pull_request
              (dict_update rich1
                 [(''issue_id_in_repo'', issue_id), (''repository'', repo),
                  (''pull_state'', status), (''pull_updated_at'', updated_on)])) (\<lambda>rich2.
     copy_fields [(''url'', ''origin''), (''pull_url'', ''origin''), (''issue_url'', ''origin'')]
       (PDict item) rich2)))))))"

definition GitlinkEnrich2_get_rich_pull :: "env \<Rightarrow> pydict \<Rightarrow> error + (pydict \<times> pydict)" where
  "GitlinkEnrich2_get_rich_pull env item =
     (let rich0 = copy_raw_fields (RAW_FIELDS_COPY env) item [] in
      bindE (getitem item ''data'') (\<lambda>pull_request.
      bindE (rich_pull_user env pull_request rich0) (\<lambda>rich1.
      bindE (rich_pull_merger env pull_request rich1) (\<lambda>rich2.
      bindE (rich_pull_ids item pull_request rich2) (\<lambda>rich3.
      bindE (get_reactions pull_request) (\<lambda>(reactions, pull_request1).
      bindE (subscript pull_request1 ''comments'') (\<lambda>comments.
      bindE (subscript comments ''total_count'') (\<lambda>total_count.
      bindE (rich_project env item
               (dict_update (dict_update rich3 reactions)
                  [(''item_type'', PStr PULL_TYPE), (''num_review_comments'', total_count),
                   (''time_to_merge_request_response'', PNone)])) (\<lambda>rich4.
      bindE (dict_pop rich4 (''is_gitlink2_'' @ PULL_TYPE)) (\<lambda>rich5.
      rich_sortinghat env pr_roles (setitem item ''data'' pull_request1)
        (setitem rich5 (''is_gitlink_'' @ PULL_TYPE) (PInt 1))))))))))))"

definition GitlinkEnrich2_get_rich_repo :: "env \<Rightarrow> pydict \<Rightarrow> error + pydict" where
  "GitlinkEnrich2_get_rich_repo env item =
     (let rich0 = copy_raw_fields (RAW_FIELDS_COPY env) item [] in
      bindE (getitem item ''data'') (\<lambda>repo.
      bindE (subscript repo ''fetched_on'') (\<lambda>fetched_on.
      bindE (copy_fields
               [(''forks_count'', ''forks_count''), (''subscribers_count'', ''subscribers_count''),
                (''stargazers_count'', ''stargazers_count''), (''fetched_on'', ''fetched_on''),
                (''url'', ''origin'')]
               repo (setitem rich0 ''id'' (PStr (py_str env fetched_on)))) (\<lambda>rich1.
      (let rich2 = setitem rich1 ''item_type'' (PStr ''repository'') in
       bindE (if prjs_map env
              then bindE (get_item_project env rich2) (\<lambda>project.
                   Inr (dict_update rich2 project))
              else Inr rich2) (\<lambda>rich3.
       bindE (getitem item ''metadata__updated_on'') (\<lambda>updated_on.
       rich_grimoire env updated_on REPOSITORY_TYPE rich3)))))))"

subsection \<open>\<open>get_rich_item\<close>\<close>

text \<open>
  What the pipeline does besides returning values: error and info messages of the
  logger, and batches handed to the sink with the name of the identifier field.
\<close>

datatype event =
    LogError string
  | LogInfo string
  | BulkUpload "pydict list" string

text \<open>
  \<open>get_rich_item\<close> returns the enriched item, the raw item as the mapping functions
  leave it, and what it logged. An item of no known category is logged, and the empty
  dictionary takes the place of the mapped item in what follows.
\<close>

definition get_rich_item :: "env \<Rightarrow> pydict \<Rightarrow> error + (pydict \<times> pydict \<times> event list)" where
  "get_rich_item env item =
     bindE (getitem item ''category'') (\<lambda>category.
     bindE (if py_eq category (PStr ''issue'') then
              bindE (GitlinkEnrich2_get_rich_issue env item) (\<lambda>(rich_item, item').
              Inr (rich_item, item', []))
            else if py_eq category (PStr ''pull_request'') then
              bindE (GitlinkEnrich2_get_rich_pull env item) (\<lambda>(rich_item, item').
              Inr (rich_item, item', []))
            else if py_eq category (PStr ''repository'') then
              bindE (GitlinkEnrich2_get_rich_repo env item) (\<lambda>rich_item.
              Inr (rich_item, item, []))
            else
              Inr ([], item,
                   [LogError (''[gitlink] rich item not defined for gitlink category ''
                              @ py_str env category)])) (\<lambda>(rich_item, item', logged).
     Inr (metadata env (add_metadata_filter_raw env (add_repository_labels env rich_item)),
          item', logged)))"

subsection \<open>Fan-out: comments and reviews\<close>

text \<open>The end of both loop bodies, from \<open># Add user_login\<close> on.\<close>

definition rich_comment_user :: "env \<Rightarrow> pydict \<Rightarrow> pyval \<Rightarrow> pydict \<Rightarrow> error + pydict" where
  "rich_comment_user env eitem comment ecomment =
     bindE (py_get comment ''user_data'' PNone) (\<lambda>found.
     bindE (if \<not> truthy found then
              bindE (py_setitem comment ''user_data''
                       (PDict [(''login'', PStr DELETED_USER_LOGIN),
                               (''name'', PStr DELETED_USER_NAME)])) (\<lambda>comment'.
              Inr (PDict [(''login'', PStr DELETED_USER_LOGIN),
                          (''name'', PStr DELETED_USER_NAME)], comment'))
            else Inr (found, comment)) (\<lambda>(user_data, comment').
     bindE (subscript user_data ''login'') (\<lambda>login.
     bindE (if sortinghat env then
              bindE (get_item_sh env comment' comment_roles (Some ''updated_at'')) (\<lambda>sh.
              Inr (dict_update (setitem ecomment ''user_login'' login) sh))
            else Inr (setitem ecomment ''user_login'' login)) (\<lambda>ecomment1.
     bindE (if prjs_map env then
              bindE (get_item_project env ecomment1) (\<lambda>project.
              Inr (dict_update ecomment1 project))
            else Inr ecomment1) (\<lambda>ecomment2.
     Inr (add_gelk_metadata env
            (add_metadata_filter_raw env
              (add_repository_labels env
                (case map_of eitem ''project'' of
                   None \<Rightarrow> ecomment2
                 | Some project \<Rightarrow> setitem ecomment2 ''project'' project)))))))))"

text \<open>One round of the loop of \<open>get_rich_issue_comments\<close>.\<close>

definition rich_issue_comment :: "env \<Rightarrow> pydict \<Rightarrow> pyval \<Rightarrow> error + pydict" where
  "rich_issue_comment env eitem comment =
     bindE (copy_fields
              [(''issue_labels'', ''issue_labels''), (''issue_id'', ''issue_id''),
               (''issue_id_in_repo'', ''issue_id_in_repo''), (''issue_url'', ''issue_url''),
               (''issue_title'', ''issue_title''), (''issue_state'', ''issue_state''),
               (''issue_created_at'', ''issue_created_at''),
               (''issue_updated_at'', ''issue_updated_at''),
               (''issue_closed_at'', ''closed_at''),
               (''issue_pull_request'', ''issue_pull_request''),
               (''gitlink_repo'', ''gitlink_repo''), (''repository'', ''repository'')]
              (PDict eitem) (copy_raw_fields (RAW_FIELDS_COPY env) eitem [])) (\<lambda>ecomment1.
     bindE (subscript comment ''body'') (\<lambda>body.
     bindE (py_slice_to body (KEYWORD_MAX_LENGTH env)) (\<lambda>short_body.
     bindE (get_reactions comment) (\<lambda>(reactions, comment1).
     bindE (subscript comment1 ''updated_at'') (\<lambda>updated_at.
     bindE (getitem eitem ''id'') (\<lambda>parent_id.
     bindE (subscript comment1 ''id'') (\<lambda>comment_id.
     bindE (rich_grimoire env updated_at ISSUE_COMMENT_TYPE
              (dict_update
                 (dict_update
                    (dict_update ecomment1
                       [(''item_type'', PStr COMMENT_TYPE), (''sub_type'', PStr ISSUE_COMMENT_TYPE),
                        (''body'', short_body), (''body_analyzed'', body)])
                    reactions)
                 [(''comment_updated_at'', updated_at),
                  (''id'', PStr (py_str env parent_id @ ''_issue_comment_''
                                 @ py_str env comment_id))])) (\<lambda>ecomment2.
     rich_comment_user env eitem comment1
       (setitem ecomment2 ''is_gitlink_comment'' (PInt 1))))))))))"

definition get_rich_issue_comments :: "env \<Rightarrow> pyval \<Rightarrow> pydict \<Rightarrow> error + pydict list" where
  "get_rich_issue_comments env comments eitem =
     bindE (py_iter comments) (mapE (rich_issue_comment env eitem))"

definition enrich_issue :: "env \<Rightarrow> pydict \<Rightarrow> pydict \<Rightarrow> error + pydict list" where
  "enrich_issue env item eitem =
     bindE (getitem item ''data'') (\<lambda>data.
     bindE (py_get data ''comments_data'' (PList [])) (\<lambda>comments.
     if truthy comments then get_rich_issue_comments env comments eitem else Inr []))"

text \<open>One round of the loop of \<open>get_rich_pull_reviews\<close>. A review has
  \<open>submitted_at\<close> where a comment has \<open>updated_at\<close>.\<close>

definition rich_pull_review :: "env \<Rightarrow> pydict \<Rightarrow> pyval \<Rightarrow> error + pydict" where
  "rich_pull_review env eitem comment =
     bindE (py_contains comment ''updated_at'') (\<lambda>present.
     bindE (if \<not> present then
              bindE (subscript comment ''submitted_at'') (py_setitem comment ''updated_at'')
            else Inr comment) (\<lambda>comment0.
     bindE (py_get comment0 ''state'' (PStr [])) (\<lambda>state.
     bindE (copy_fields
              [(''pull_labels'', ''pull_labels''), (''pull_id'', ''pull_id''),
               (''pull_id_in_repo'', ''pull_id_in_repo''),
               (''issue_id_in_repo'', ''issue_id_in_repo''),
               (''issue_title'', ''issue_title''), (''issue_url'', ''issue_url''),
               (''pull_url'', ''pull_url''), (''pull_state'', ''pull_state''),
               (''pull_created_at'', ''pull_created_at''),
               (''pull_updated_at'', ''pull_updated_at''),
               (''pull_merged_at'', ''pull_merged_at''),
               (''pull_closed_at'', ''pull_closed_at''),
               (''pull_merged'', ''pull_merged''), (''pull_state'', ''pull_state''),
               (''gitlink_repo'', ''gitlink_repo''), (''repository'', ''repository'')]
              (PDict eitem)
              (setitem (copy_raw_fields (RAW_FIELDS_COPY env) eitem []) ''review_state'' state))
       (\<lambda>ecomment1.
     bindE (subscript comment0 ''body'') (\<lambda>body.
     bindE (py_slice_to body (KEYWORD_MAX_LENGTH env)) (\<lambda>short_body.
     bindE (subscript comment0 ''html_url'') (\<lambda>html_url.
     bindE (get_reactions comment0) (\<lambda>(reactions, comment1).
     bindE (subscript comment1 ''updated_at'') (\<lambda>updated_at.
     bindE (py_get comment1 ''created_at'' updated_at) (\<lambda>created_at.
     bindE (getitem eitem ''id'') (\<lambda>parent_id.
     bindE (subscript comment1 ''id'') (\<lambda>comment_id.
     bindE (rich_grimoire env updated_at REVIEW_COMMENT_TYPE
              (dict_update
                 (dict_update
                    (dict_update ecomment1
                       [(''item_type'', PStr COMMENT_TYPE), (''sub_type'', PStr REVIEW_COMMENT_TYPE),
                        (''body'', short_body), (''body_analyzed'', body), (''url'', html_url)])
                    reactions)
                 [(''comment_updated_at'', updated_at), (''comment_created_at'', created_at),
                  (''id'', PStr (py_str env parent_id @ ''_review_comment_''
                                 @ py_str env comment_id))])) (\<lambda>ecomment2.
     rich_comment_user env eitem comment1
       (setitem ecomment2 ''is_gitlink_comment'' (PInt 1)))))))))))))))"

definition get_rich_pull_reviews :: "env \<Rightarrow> pyval \<Rightarrow> pydict \<Rightarrow> error + pydict list" where
  "get_rich_pull_reviews env comments eitem =
     bindE (py_iter comments) (mapE (rich_pull_review env eitem))"

definition enrich_pulls :: "env \<Rightarrow> pydict \<Rightarrow> pydict \<Rightarrow> error + pydict list" where
  "enrich_pulls env item eitem =
     bindE (getitem item ''data'') (\<lambda>data.
     bindE (py_get data ''review_comments_data'' (PList [])) (\<lambda>comments.
     bindE (py_get data ''reviews_data'' (PList [])) (\<lambda>reviews.
     bindE (if truthy comments then get_rich_pull_reviews env comments eitem else Inr [])
       (\<lambda>rich_item_comments.
     bindE (if truthy reviews then get_rich_pull_reviews env reviews eitem else Inr [])
       (\<lambda>rich_item_reviews.
     Inr (rich_item_comments @ rich_item_reviews))))))"


section \<open>\<open>GitlinkEnrich2.enrich_items\<close>: the batch loop\<close>

text \<open>
  The state of the loop: the buffer, the two counters, and the events so far. The first
  lines of the loop body, down to \<open>items_to_enrich.extend(eitems)\<close>, give the records
  one raw item adds to the buffer: its enriched item, whatever the category, then the
  records of its comments or reviews.
\<close>

record loop_state =
  items_to_enrich :: "pydict list"
  num_items :: int
  ins_items :: int
  events :: "event list"

definition item_records :: "env \<Rightarrow> pydict \<Rightarrow> error + (pydict list \<times> event list)" where
  "item_records env item =
     bindE (get_rich_item env item) (\<lambda>(eitem, item', logged).
     bindE (getitem item' ''category'') (\<lambda>category.
     bindE (if py_eq category (PStr ISSUE_TYPE) then enrich_issue env item' eitem
            else if py_eq category (PStr PULL_TYPE) then enrich_pulls env item' eitem
            else Inr []) (\<lambda>eitems.
     Inr (eitem # eitems, logged))))"

text \<open>The batches the sink has received, in order.\<close>

fun uploads :: "event list \<Rightarrow> pydict list list" where
  "uploads [] = []"
| "uploads (BulkUpload batch field_id # es) = batch # uploads es"
| "uploads (e # es) = uploads es"

text \<open>\<open>num_items += len(items_to_enrich); ins_items += self.elastic.bulk_upload(...)\<close>,
  the buffer being what is handed over.\<close>

definition flush :: "env \<Rightarrow> loop_state \<Rightarrow> loop_state" where
  "flush env st =
     st\<lparr>num_items := num_items st + int (length (items_to_enrich st)),
        ins_items := ins_items st
                     + bulk_upload env (uploads (events st)) (items_to_enrich st)
                         get_field_unique_id,
        events := events st @ [BulkUpload (items_to_enrich st) get_field_unique_id]\<rparr>"

definition loop_body :: "env \<Rightarrow> loop_state \<Rightarrow> pydict \<Rightarrow> error + loop_state" where
  "loop_body env st item =
     bindE (item_records env item) (\<lambda>(records, logged).
     (let st1 = st\<lparr>items_to_enrich := items_to_enrich st @ records,
                    events := events st @ logged\<rparr>
      in if length (items_to_enrich st1) < MAX_SIZE_BULK_ENRICHED_ITEMS then Inr st1
         else Inr ((flush env st1)\<lparr>items_to_enrich := []\<rparr>)))"

fun enrich_loop :: "env \<Rightarrow> loop_state \<Rightarrow> pydict list \<Rightarrow> error + loop_state" where
  "enrich_loop env st [] = Inr st"
| "enrich_loop env st (item # rest) =
     bindE (loop_body env st item) (\<lambda>st'. enrich_loop env st' rest)"

definition initial_state :: loop_state where
  "initial_state = \<lparr>items_to_enrich = [], num_items = 0, ins_items = 0, events = []\<rparr>"

text \<open>After the loop: the flush of what is left, and the report.\<close>

definition final_flush :: "env \<Rightarrow> loop_state \<Rightarrow> loop_state" where
  "final_flush env st = (if length (items_to_enrich st) > 0 then flush env st else st)"

definition report :: "loop_state \<Rightarrow> event" where
  "report st =
     (if num_items st \<noteq> ins_items st
      then LogError (str_int (num_items st - ins_items st) @ ''/'' @ str_int (num_items st)
                     @ '' missing items for gitlink'')
      else LogInfo (str_int (num_items st) @ '' items inserted for gitlink''))"

text \<open>\<open>enrich_items\<close> over the records the source yields: the number it returns and
  the events of the run. An exception of the transform stage ends the run.\<close>

definition enrich_items :: "env \<Rightarrow> pydict list \<Rightarrow> error + (int \<times> event list)" where
  "enrich_items env fetched =
     bindE (enrich_loop env initial_state fetched) (\<lambda>st.
     (let st' = final_flush env st
      in Inr (num_items st', events st' @ [report st'])))"

section \<open>\<open>GitlinkEnrich\<close>\<close>

definition GitlinkEnrich_issue_times :: "env \<Rightarrow> pyval \<Rightarrow> pydict \<Rightarrow> error + pydict" where
  "GitlinkEnrich_issue_times env issue rich_issue =
     bindE (subscript issue ''created_at'') (\<lambda>created_at.
     bindE (subscript issue ''updated_at'') (\<lambda>updated_at.
     bindE (get_time_diff_days env created_at updated_at) (\<lambda>time_to_close.
     bindE (subscript issue ''status'') (\<lambda>status.
     bindE (subscript status ''id'') (\<lambda>status_id.
     bindE (if py_eq status_id (PInt 1) \<or> py_eq status_id (PInt 2)
            then get_time_diff_days env created_at (PDate (datetime_utcnow env))
            else Inr time_to_close) (\<lambda>time_open.
     Inr (dict_update rich_issue
            [(''time_to_close_days'', time_to_close), (''time_open_days'', time_open)])))))))"

definition GitlinkEnrich_issue_user :: "pyval \<Rightarrow> pydict \<Rightarrow> error + pydict" where
  "GitlinkEnrich_issue_user issue rich_issue =
     bindE (subscript issue ''author'') (\<lambda>author.
     bindE (subscript author ''login'') (\<lambda>login.
     bindE (py_get issue ''author'' PNone) (\<lambda>user.
     bindE (if user \<noteq> PNone \<and> truthy user then subscript user ''name'' else Inr PNone)
       (\<lambda>name.
     Inr (dict_update rich_issue
            [(''user_login'', login), (''user_name'', name), (''author_name'', name)])))))"

text \<open>One round of the loop over the assignees: the dictionary \<open>assignee_data\<close>.\<close>

definition assignee_data_of :: "pyval \<Rightarrow> error + pyval" where
  "assignee_data_of assignee =
     bindE (subscript assignee ''login'') (\<lambda>login.
     bindE (subscript assignee ''name'') (\<lambda>name.
     Inr (PDict [(''assignee_login'', login), (''assignee_name'', name)])))"

text \<open>After the loop \<open>assignee_data\<close> is what the last round bound; a loop without a
  round leaves the name unbound.\<close>

definition GitlinkEnrich_issue_assignee :: "pyval \<Rightarrow> pydict \<Rightarrow> error + pydict" where
  "GitlinkEnrich_issue_assignee issue rich_issue =
     bindE (py_get issue ''assignee'' PNone) (\<lambda>assignees.
     if truthy assignees \<and> assignees \<noteq> PNone then
       bindE (py_iter assignees) (\<lambda>elements.
       bindE (mapE assignee_data_of elements) (\<lambda>assignees_data.
       if assignees_data = [] then Inl UnboundLocalError
       else Inr (setitem rich_issue ''assignee'' (last assignees_data))))
     else Inr (setitem rich_issue ''assignee'' PNone))"

definition GitlinkEnrich_issue_ids :: "pyval \<Rightarrow> pydict \<Rightarrow> error + pydict" where
  "GitlinkEnrich_issue_ids issue rich_issue =
     bindE (copy_fields [(''id'', ''id''), (''id_in_repo'', ''project_issues_index'')]
              issue rich_issue) (\<lambda>rich1.
     bindE (getitem rich1 ''origin'') (\<lambda>repo.
     bindE (subscript issue ''status'') (\<lambda>status.
     bindE (subscript status ''name'') (\<lambda>state.
     copy_fields [(''created_at'', ''created_at''), (''updated_at'', ''updated_at'')]
       issue (dict_update rich1 [(''repository'', repo), (''state'', state)])))))"

definition GitlinkEnrich_issue_labels :: "pyval \<Rightarrow> pydict \<Rightarrow> error + pydict" where
  "GitlinkEnrich_issue_labels issue rich_issue =
     bindE (py_keys issue) (\<lambda>keys.
     if ''labels'' \<in> set keys then
       bindE (subscript issue ''labels'') (\<lambda>labels.
       bindE (py_iter labels) (\<lambda>elements.
       bindE (mapE (\<lambda>label. subscript label ''name'') elements) (\<lambda>names.
       Inr (setitem rich_issue ''labels'' (PList names)))))
     else Inr rich_issue)"

definition GitlinkEnrich_issue_kind :: "pyval \<Rightarrow> pydict \<Rightarrow> error + pydict" where
  "GitlinkEnrich_issue_kind issue rich_issue =
     bindE (py_keys issue) (\<lambda>keys.
     (let rich1 = dict_update rich_issue
                    (if ''head'' \<notin> set keys \<and> ''pull_request'' \<notin> set keys
                     then [(''pull_request'', PBool False), (''item_type'', PStr ''issue'')]
                     else [(''pull_request'', PBool True), (''item_type'', PStr ''pull_request'')])
      in if contains_key rich1 ''issue'' then
           bindE (getitem rich1 ''issue'') (\<lambda>issue_field.
           bindE (py_replace issue_field GITLINK []) (\<lambda>gitlink_repo.
           bindE (py_concat gitlink_repo (PStr ''/issues/'')) (\<lambda>prefix.
           bindE (getitem rich1 ''id_in_repo'') (\<lambda>id_in_repo.
           bindE (py_concat prefix id_in_repo) (\<lambda>url_id.
           Inr (dict_update rich1
                  [(''gitlink_repo'', gitlink_repo), (''url_id'', url_id)]))))))
         else Inr rich1))"

definition GitlinkEnrich_get_rich_issue :: "env \<Rightarrow> pydict \<Rightarrow> error + pydict" where
  "GitlinkEnrich_get_rich_issue env item =
     (let rich0 = copy_raw_fields (RAW_FIELDS_COPY env) item [] in
      bindE (getitem item ''data'') (\<lambda>issue.
      bindE (GitlinkEnrich_issue_times env issue rich0) (\<lambda>rich1.
      bindE (GitlinkEnrich_issue_user issue rich1) (\<lambda>rich2.
      bindE (GitlinkEnrich_issue_assignee issue rich2) (\<lambda>rich3.
      bindE (GitlinkEnrich_issue_ids issue rich3) (\<lambda>rich4.
      bindE (GitlinkEnrich_issue_labels issue rich4) (\<lambda>rich5.
      bindE (GitlinkEnrich_issue_kind issue rich5) (\<lambda>rich6.
      bindE (rich_project env item rich6) (\<lambda>rich7.
      bindE (subscript issue ''created_at'') (\<lambda>created_at.
      bindE (get_grimoire_fields env created_at ''issue'') (\<lambda>fields.
      Inr (dict_update rich7 fields))))))))))))"

text \<open>One round of the loop over the releases of a repository.\<close>

definition rich_release :: "pyval \<Rightarrow> error + pyval" where
  "rich_release release =
     bindE (copy_fields
              [(''id'', ''id''), (''tag_name'', ''tag_name''),
               (''target_commitish'', ''target_commitish''), (''name'', ''name''),
               (''body'', ''body''), (''created_at'', ''created_at'')] release []) (\<lambda>dict1.
     bindE (copy_fields [(''login'', ''user_login''), (''name'', ''user_name'')] release [])
       (\<lambda>author.
     Inr (PDict (setitem dict1 ''author'' (PDict author)))))"

definition GitlinkEnrich_get_rich_repo :: "env \<Rightarrow> pydict \<Rightarrow> error + pydict" where
  "GitlinkEnrich_get_rich_repo env item =
     (let rich0 = copy_raw_fields (RAW_FIELDS_COPY env) item [] in
      bindE (getitem item ''data'') (\<lambda>repo.
      bindE (copy_fields
               [(''forks_count'', ''forked_count''), (''subscribers_count'', ''watchers_count''),
                (''praises_count'', ''praises_count''), (''fetched_on'', ''fetched_on'')]
               repo rich0) (\<lambda>rich1.
      bindE (getitem item ''origin'') (\<lambda>origin.
      bindE (subscript repo ''releases'') (\<lambda>releases.
      bindE (py_iter releases) (\<lambda>elements.
      bindE (mapE rich_release elements) (\<lambda>rich_releases.
      (let rich2 = dict_update rich1
                     [(''url'', origin), (''item_type'', PStr ''repository''),
                      (''releases'', PList rich_releases),
                      (''releases_count'', PInt (int (length rich_releases)))] in
       bindE (if prjs_map env
              then bindE (get_item_project env rich2) (\<lambda>project.
                   Inr (dict_update rich2 project))
              else Inr rich2) (\<lambda>rich3.
       bindE (getitem item ''metadata__updated_on'') (\<lambda>updated_on.
       bindE (get_grimoire_fields env updated_on ''repository'') (\<lambda>fields.
       Inr (dict_update rich3 fields))))))))))))"


section \<open>Notions used by the properties\<close>

text \<open>
  The framework's helpers and decorators do not write the key \<open>k\<close>: the
  dictionaries \<open>get_item_project\<close>, \<open>get_grimoire_fields\<close> and \<open>get_item_sh\<close>
  return have no entry for it, and the three decorators leave its entry as it is.
\<close>

definition hooks_leave :: "env \<Rightarrow> string \<Rightarrow> bool" where
  "hooks_leave env k \<longleftrightarrow>
     (\<forall>rich project. get_item_project env rich = Inr project \<longrightarrow> map_of project k = None) \<and>
     (\<forall>date item_type fields.
        get_grimoire_fields env date item_type = Inr fields \<longrightarrow> map_of fields k = None) \<and>
     (\<forall>item roles date_field sh.
        get_item_sh env item roles date_field = Inr sh \<longrightarrow> map_of sh k = None) \<and>
     (\<forall>eitem. map_of (add_repository_labels env eitem) k = map_of eitem k) \<and>
     (\<forall>eitem. map_of (add_metadata_filter_raw env eitem) k = map_of eitem k) \<and>
     (\<forall>eitem. map_of (metadata env eitem) k = map_of eitem k)"


text \<open>A field of the payload \<open>item['data']\<close>, and the status code of an issue.\<close>

definition issue_field :: "pydict \<Rightarrow> string \<Rightarrow> error + pyval" where
  "issue_field item k = bindE (getitem item ''data'') (\<lambda>issue. subscript issue k)"

definition status_code :: "pydict \<Rightarrow> error + pyval" where
  "status_code item = bindE (issue_field item ''status'') (\<lambda>status. subscript status ''id'')"

text \<open>The issue is still open: its status code is 1 or 2.\<close>

definition still_open :: "pyval \<Rightarrow> bool" where
  "still_open code \<longleftrightarrow> py_eq code (PInt 1) \<or> py_eq code (PInt 2)"

text \<open>
  The two time metrics of an enriched issue, as the specification words them:
  \<open>time_to_close_days\<close> is the time from the creation of the issue to its closing
  timestamp (the field \<open>closing\<close> of the payload); \<open>time_open_days\<close> is the time from
  the creation to the current time for an issue that is still open, and equal to
  \<open>time_to_close_days\<close> otherwise.
\<close>

definition time_metrics_as_specified :: "env \<Rightarrow> pydict \<Rightarrow> string \<Rightarrow> pydict \<Rightarrow> bool" where
  "time_metrics_as_specified env item closing rich \<longleftrightarrow>
     (case (issue_field item ''created_at'', issue_field item closing, status_code item) of
        (Inr created, Inr closed, Inr code) \<Rightarrow>
          (case get_time_diff_days env created closed of
             Inr to_close \<Rightarrow>
               map_of rich ''time_to_close_days'' = Some to_close \<and>
               (if still_open code then
                  (case get_time_diff_days env created (PDate (datetime_utcnow env)) of
                     Inr to_now \<Rightarrow> map_of rich ''time_open_days'' = Some to_now
                   | Inl e \<Rightarrow> False)
                else map_of rich ''time_open_days'' = Some to_close)
           | Inl e \<Rightarrow> False)
      | _ \<Rightarrow> False)"

section \<open>Sample inputs\<close>

text \<open>
  An environment for running the model on concrete records. It has the copy list and
  the keyword length of the framework's \<open>Enrich\<close> class, no SortingHat and no projects
  map, helpers that return the keys they are named after and nothing else, and a sink
  that writes every record. Timestamps of the sample records are seconds, so that the
  date helpers need no parser: \<open>days_between\<close> counts whole days.
\<close>

fun seconds_of :: "pyval \<Rightarrow> error + int" where
  "seconds_of (PInt t) = Inr t"
| "seconds_of (PDate t) = Inr t"
| "seconds_of _ = Inl (ExternalError ''InvalidDateError'')"

definition days_between :: "pyval \<Rightarrow> pyval \<Rightarrow> error + pyval" where
  "days_between start end =
     (if start = PNone \<or> end = PNone then Inr PNone
      else bindE (seconds_of start) (\<lambda>s.
           bindE (seconds_of end) (\<lambda>e.
           Inr (PInt ((e - s) div 86400)))))"

definition test_env :: env where
  "test_env =
     \<lparr>RAW_FIELDS_COPY = [''metadata__updated_on'', ''metadata__timestamp'', ''offset'',
                         ''origin'', ''tag'', ''uuid''],
      KEYWORD_MAX_LENGTH = 1000,
      sortinghat = False,
      prjs_map = False,
      gelk_version = PStr ''1.0'',
      datetime_utcnow = 864000,
      isoformat = str_int,
      py_repr = (\<lambda>v. ''<object>''),
      get_time_diff_days = days_between,
      str_to_datetime = seconds_of,
      get_email_domain = (\<lambda>email. Inr PNone),
      get_item_project = (\<lambda>eitem. Inr [(''project'', PNone)]),
      get_grimoire_fields =
        (\<lambda>date item_type.
           Inr [(''grimoire_creation_date'', date), (''is_gitlink2_'' @ item_type, PInt 1)]),
      get_item_sh = (\<lambda>item roles date_field. Inr []),
      add_repository_labels = (\<lambda>eitem. setitem eitem ''repository_labels'' PNone),
      add_metadata_filter_raw = (\<lambda>eitem. setitem eitem ''filter_raw'' PNone),
      metadata = (\<lambda>eitem. setitem eitem ''metadata__gelk_version'' (PStr ''1.0'')),
      bulk_upload = (\<lambda>before batch field_id. int (length batch))\<rparr>"

text \<open>An issue with two assignees and no comment, created at second 0; \<open>issue_with\<close>
  gives it a status code and comments.\<close>

definition issue_with :: "int \<Rightarrow> pyval list \<Rightarrow> pydict" where
  "issue_with code comments =
     [(''category'', PStr ''issue''),
      (''origin'', PStr ''https://www.gitlink.org.cn/owner/repo''),
      (''data'', PDict
         [(''id'', PInt 42),
          (''html_url'', PStr ''https://www.gitlink.org.cn/owner/repo/issues/7''),
          (''project_issues_index'', PInt 7),
          (''title'', PStr ''a bug''),
          (''created_at'', PInt 0),
          (''updated_at'', PInt 172800),
          (''finished_at'', PInt 259200),
          (''status'', PDict [(''id'', PInt code), (''name'', PStr ''status'')]),
          (''author'', PDict [(''login'', PStr ''alice''), (''name'', PStr ''Alice'')]),
          (''user'', PDict [(''login'', PStr ''alice''), (''name'', PStr ''Alice'')]),
          (''assignee'', PList [PDict [(''login'', PStr ''bob''), (''name'', PStr ''Bob'')],
                                PDict [(''login'', PStr ''carol''), (''name'', PStr ''Carol'')]]),
          (''labels'', PList []),
          (''comments_data'', PList comments)])]"

definition comment_by :: "int \<Rightarrow> string \<Rightarrow> pyval" where
  "comment_by comment_id login =
     PDict [(''id'', PInt comment_id), (''body'', PStr ''thanks''),
            (''created_at'', PInt 86400), (''updated_at'', PInt 86400),
            (''user'', PDict [(''login'', PStr login), (''name'', PStr login)]),
            (''user_data'', PDict [(''login'', PStr login), (''name'', PStr login)])]"


section \<open>Properties\<close>

lemma bindE_simps [simp]:
  "bindE (Inl e) f = Inl e"
  "bindE (Inr x) f = f x"
  by (simp_all add: bindE_def)

lemma bindE_eq_Inr: "bindE m f = Inr y \<longleftrightarrow> (\<exists>x. m = Inr x \<and> f x = Inr y)"
  by (cases m) simp_all

subsection \<open>Dictionaries\<close>

lemma map_of_setitem [simp]:
  "map_of (setitem d k v) k' = (if k' = k then Some v else map_of d k')"
  by (simp add: setitem_def update_conv')

lemma dict_update_Nil [simp]: "dict_update d [] = d"
  by (simp add: dict_update_def)

lemma dict_update_Cons [simp]:
  "dict_update d (kv # other) = dict_update (setitem d (fst kv) (snd kv)) other"
  by (simp add: dict_update_def)

lemma map_of_dict_update_other:
  "map_of other k = None \<Longrightarrow> map_of (dict_update d other) k = map_of d k"
proof (induction other arbitrary: d)
  case Nil
  then show ?case by simp
next
  case (Cons kv other)
  then show ?case by (cases kv) (auto split: if_splits)
qed

lemma map_of_copy_raw_fields:
  "map_of (copy_raw_fields fs source target) k =
     (if k \<in> set fs then Some (dict_get source k PNone) else map_of target k)"
  by (induction fs arbitrary: target) auto

lemma copy_fields_other:
  "copy_fields kks source target = Inr r \<Longrightarrow> k \<notin> fst ` set kks
   \<Longrightarrow> map_of r k = map_of target k"
  by (induction kks arbitrary: target) (auto simp: bindE_eq_Inr)

lemma map_of_delete [simp]:
  "map_of (AList.delete k d) k' = (if k' = k then None else map_of d k')"
  by (simp add: delete_conv')

lemma dict_pop_other:
  "dict_pop d k = Inr r \<Longrightarrow> k' \<noteq> k \<Longrightarrow> map_of r k' = map_of d k'"
  by (auto simp: dict_pop_def split: if_splits)

lemma reactions_fold_other:
  "take 9 k \<noteq> ''reaction_'' \<Longrightarrow>
   map_of (fold (\<lambda>kv reactions.
                  setitem reactions (''reaction_'' @ reaction_name (fst kv)) (snd kv)) rs acc) k
   = map_of acc k"
  by (induction rs arbitrary: acc) auto

lemma get_reactions_other:
  "get_reactions item = Inr (reactions, item') \<Longrightarrow> take 9 k \<noteq> ''reaction_''
   \<Longrightarrow> map_of reactions k = None"
  using reactions_fold_other [of k _ "[]"]
  by (auto simp: get_reactions_def Let_def split: pyval.splits option.splits)

lemma rich_issue_times_other:
  "rich_issue_times env issue rich = Inr r \<Longrightarrow>
   k \<notin> set [''time_to_close_days'', ''time_open_days'']
   \<Longrightarrow> map_of r k = map_of rich k"
  by (auto simp: rich_issue_times_def bindE_eq_Inr)

lemma rich_issue_user_other:
  "rich_issue_user env issue rich = Inr r \<Longrightarrow>
   k \<notin> set [''user_login'', ''user_name'', ''author_name'', ''user_domain'', ''user_org'',
             ''user_location'', ''user_geolocation'']
   \<Longrightarrow> map_of r k = map_of rich k"
  by (auto simp: rich_issue_user_def bindE_eq_Inr split: if_splits)

lemma rich_issue_assignee_other:
  "rich_issue_assignee env issue rich = Inr r \<Longrightarrow>
   k \<notin> set [''assignee_login'', ''assignee_name'', ''assignee_domain'', ''assignee_org'',
             ''assignee_location'', ''assignee_geolocation'']
   \<Longrightarrow> map_of r k = map_of rich k"
  by (auto simp: rich_issue_assignee_def bindE_eq_Inr split: if_splits)

lemma rich_issue_ids_other:
  "rich_issue_ids issue rich = Inr r \<Longrightarrow>
   k \<notin> set [''id'', ''issue_id'', ''issue_id_in_repo'', ''repository'', ''issue_title'',
             ''issue_title_analyzed'', ''issue_state'', ''issue_created_at'',
             ''issue_updated_at'']
   \<Longrightarrow> map_of r k = map_of rich k"
  by (auto simp: rich_issue_ids_def bindE_eq_Inr dest!: copy_fields_other [where k = k])

lemma rich_issue_labels_other:
  "rich_issue_labels issue rich = Inr r \<Longrightarrow> k \<noteq> ''issue_labels''
   \<Longrightarrow> map_of r k = map_of rich k"
  by (auto simp: rich_issue_labels_def bindE_eq_Inr split: if_splits)

lemma rich_issue_kind_other:
  "rich_issue_kind issue rich = Inr r \<Longrightarrow>
   k \<notin> set [''item_type'', ''issue_pull_request'', ''gitlink_repo'', ''url_id'']
   \<Longrightarrow> map_of r k = map_of rich k"
  by (auto simp: rich_issue_kind_def bindE_eq_Inr Let_def split: if_splits)

lemma rich_project_other:
  "rich_project env item rich = Inr r \<Longrightarrow> hooks_leave env k \<Longrightarrow> k \<noteq> ''project''
   \<Longrightarrow> map_of r k = map_of rich k"
  by (auto simp: rich_project_def bindE_eq_Inr hooks_leave_def map_of_dict_update_other
           split: if_splits option.splits)

lemma rich_issue_attention_other:
  "rich_issue_attention env issue rich = Inr (r, issue') \<Longrightarrow>
   k \<notin> set [''time_to_first_attention'', ''num_of_comments_without_bot'',
             ''time_to_first_attention_without_bot'']
   \<Longrightarrow> map_of r k = map_of rich k"
  by (auto simp: rich_issue_attention_def bindE_eq_Inr Let_def split: if_splits)

lemma rich_grimoire_other:
  "rich_grimoire env date item_type rich = Inr r \<Longrightarrow> hooks_leave env k \<Longrightarrow>
   k \<noteq> ''is_gitlink2_'' @ item_type \<Longrightarrow> k \<noteq> ''is_gitlink_'' @ item_type
   \<Longrightarrow> map_of r k = map_of rich k"
  by (auto simp: rich_grimoire_def bindE_eq_Inr hooks_leave_def map_of_dict_update_other
           dest!: dict_pop_other [where k' = k])

lemma rich_sortinghat_other:
  "rich_sortinghat env roles item rich = Inr (r, item') \<Longrightarrow> hooks_leave env k
   \<Longrightarrow> map_of r k = map_of rich k"
  by (auto simp: rich_sortinghat_def bindE_eq_Inr hooks_leave_def map_of_dict_update_other Let_def
           split: if_splits)


lemma GitlinkEnrich2_get_rich_issue_other:
  assumes run: "GitlinkEnrich2_get_rich_issue env item = Inr (rich, item')"
    and hooks: "hooks_leave env k"
    and no_reaction: "take 9 k \<noteq> ''reaction_''"
    and other: "k \<notin> set [''user_login'', ''user_name'', ''author_name'', ''user_domain'',
        ''user_org'', ''user_location'', ''user_geolocation'', ''assignee_login'',
        ''assignee_name'', ''assignee_domain'', ''assignee_org'', ''assignee_location'',
        ''assignee_geolocation'', ''id'', ''issue_id'', ''issue_id_in_repo'', ''repository'',
        ''issue_title'', ''issue_title_analyzed'', ''issue_state'', ''issue_created_at'',
        ''issue_updated_at'', ''issue_labels'', ''item_type'', ''issue_pull_request'',
        ''gitlink_repo'', ''url_id'', ''project'', ''time_to_first_attention'',
        ''num_of_comments_without_bot'', ''time_to_first_attention_without_bot'',
        ''is_gitlink2_issue'', ''is_gitlink_issue'']"
  shows "\<exists>issue rich1. getitem item ''data'' = Inr issue
           \<and> rich_issue_times env issue (copy_raw_fields (RAW_FIELDS_COPY env) item []) = Inr rich1
           \<and> map_of rich k = map_of rich1 k"
proof -
  from run obtain issue rich1 rich2 rich3 rich4 reactions issue1 rich5 rich6 rich7 rich8
      issue2 created_at rich9
    where data: "getitem item ''data'' = Inr issue"
      and s1: "rich_issue_times env issue (copy_raw_fields (RAW_FIELDS_COPY env) item []) = Inr rich1"
      and s2: "rich_issue_user env issue rich1 = Inr rich2"
      and s3: "rich_issue_assignee env issue rich2 = Inr rich3"
      and s4: "rich_issue_ids issue rich3 = Inr rich4"
      and s5: "get_reactions issue = Inr (reactions, issue1)"
      and s6: "rich_issue_labels issue1 (dict_update rich4 reactions) = Inr rich5"
      and s7: "rich_issue_kind issue1 rich5 = Inr rich6"
      and s8: "rich_project env item rich6 = Inr rich7"
      and s9: "rich_issue_attention env issue1 rich7 = Inr (rich8, issue2)"
      and s10: "rich_grimoire env created_at ISSUE_TYPE rich8 = Inr rich9"
      and s11: "rich_sortinghat env issue_roles (setitem item ''data'' issue2) rich9
                = Inr (rich, item')"
    unfolding GitlinkEnrich2_get_rich_issue_def Let_def bindE_eq_Inr
    by (auto simp: bindE_eq_Inr)
  have "map_of rich k = map_of rich9 k"
    using rich_sortinghat_other [OF s11 hooks] .
  also have "\<dots> = map_of rich8 k"
    using rich_grimoire_other [OF s10 hooks] other by (simp add: ISSUE_TYPE_def)
  also have "\<dots> = map_of rich7 k"
    using rich_issue_attention_other [OF s9] other by simp
  also have "\<dots> = map_of rich6 k"
    using rich_project_other [OF s8 hooks] other by simp
  also have "\<dots> = map_of rich5 k"
    using rich_issue_kind_other [OF s7] other by simp
  also have "\<dots> = map_of (dict_update rich4 reactions) k"
    using rich_issue_labels_other [OF s6] other by simp
  also have "\<dots> = map_of rich4 k"
    using get_reactions_other [OF s5 no_reaction] by (simp add: map_of_dict_update_other)
  also have "\<dots> = map_of rich3 k"
    using rich_issue_ids_other [OF s4] other by simp
  also have "\<dots> = map_of rich2 k"
    using rich_issue_assignee_other [OF s3] other by simp
  also have "\<dots> = map_of rich1 k"
    using rich_issue_user_other [OF s2] other by simp
  finally show ?thesis
    using data s1 by blast
qed


subsection \<open>The raw feeder\<close>

text \<open>
  C9. An item whose key \<open>classified_fields_filtered\<close> is absent, or present with a
  false value, is left exactly as it was by \<open>_fix_item\<close>, and the call returns
  normally (the item carrying its \<open>category\<close>, which is read first).
\<close>

theorem fix_item_unfiltered_unchanged:
  assumes "map_of item ''classified_fields_filtered'' = None
           \<or> (\<exists>v. map_of item ''classified_fields_filtered'' = Some v \<and> \<not> truthy v)"
  shows "fst (fix_item item) = item
         \<and> (contains_key item ''category'' \<longrightarrow> fix_item item = (item, None))"
  using assms
  by (auto simp: fix_item_def getitem_def contains_key_def split: option.splits)

theorem fix_item_unfiltered_unchanged_witness:
  "fix_item [(''category'', PStr ''issue''), (''classified_fields_filtered'', PList []),
             (''data'', PDict [(''author'', PDict [(''login'', PStr ''alice'')])])]
   = ([(''category'', PStr ''issue''), (''classified_fields_filtered'', PList []),
       (''data'', PDict [(''author'', PDict [(''login'', PStr ''alice'')])])], None)"
  using fix_item_unfiltered_unchanged
    [of "[(''category'', PStr ''issue''), (''classified_fields_filtered'', PList []),
          (''data'', PDict [(''author'', PDict [(''login'', PStr ''alice'')])])]"]
  by (simp add: contains_key_def)

end
